theory Spec2Isabelle
  imports Complex_Main "HOL-Library.Multiset"
begin

section \<open>Data model\<close>

text \<open>
  The objects of \<^verbatim>\<open>src/src/App.jsx\<close>. JavaScript numbers are modelled exactly: counters,
  level indices and seconds as \<open>int\<close>, money, chip amounts and scores as \<open>real\<close>
  (rounding of IEEE doubles is not modelled). A field that an object literal may omit is
  an \<open>option\<close>. The player's counter of buy-ins is called \<open>actions\<close> in the code.
\<close>

record blind =
  level :: int
  smallBlind :: int
  bigBlind :: int
  ante :: int
  isBreak :: "bool option"
  breakDuration :: "int option"

record player =
  pid :: int
  pname :: string
  actions :: int
  rebuys :: int
  addons :: int
  chips :: real
  position :: "int option"
  prize :: real
  active :: bool
  hasTimeChip :: bool
  hasExtraChip :: bool

record tournament =
  tid :: string
  tname :: string
  players :: "player list"
  blinds :: "blind list"
  levelDuration :: int
  currentLevelIndex :: int
  timeLeft :: int
  isRunning :: bool
  stageWeight :: real
  buyInValue :: real
  buyInChips :: real
  rebuyValue :: real
  rebuyChips :: real
  addonValue :: real
  addonChips :: real
  adminFeePercent :: real
  timeChipEnabled :: bool
  timeChipValue :: real
  extraChipEnabled :: bool
  extraChipValue :: real
  extraChipAmount :: real

record store =
  tournaments :: "tournament list"
  activeTournamentId :: "string option"

definition defaultBlindStructure :: "blind list" where
  "defaultBlindStructure =
    [\<lparr>level = 1, smallBlind = 25, bigBlind = 50, ante = 0, isBreak = None, breakDuration = None\<rparr>,
     \<lparr>level = 2, smallBlind = 50, bigBlind = 100, ante = 0, isBreak = None, breakDuration = None\<rparr>,
     \<lparr>level = 3, smallBlind = 75, bigBlind = 150, ante = 25, isBreak = Some True,
      breakDuration = Some 10\<rparr>,
     \<lparr>level = 4, smallBlind = 100, bigBlind = 200, ante = 25, isBreak = None, breakDuration = None\<rparr>,
     \<lparr>level = 5, smallBlind = 150, bigBlind = 300, ante = 50, isBreak = None, breakDuration = None\<rparr>]"

text \<open>\<^verbatim>\<open>const clamp = (v, a, b) => Math.max(a, Math.min(b, v))\<close>\<close>

definition clamp :: "int \<Rightarrow> int \<Rightarrow> int \<Rightarrow> int" where
  "clamp v a b = max a (min b v)"

section \<open>Tournament store\<close>

text \<open>
  The record that \<^verbatim>\<open>createTournament\<close> builds; the fresh identifier \<^verbatim>\<open>uid('tr_')\<close>
  is a parameter.
\<close>

definition newTournament :: "string \<Rightarrow> string \<Rightarrow> tournament" where
  "newTournament nm u =
    \<lparr>tid = u, tname = nm, players = [], blinds = defaultBlindStructure,
     levelDuration = 10, currentLevelIndex = 0, timeLeft = 10 * 60, isRunning = False,
     stageWeight = 1, buyInValue = 100, buyInChips = 10000, rebuyValue = 100,
     rebuyChips = 10000, addonValue = 50, addonChips = 5000, adminFeePercent = 10,
     timeChipEnabled = False, timeChipValue = 2000, extraChipEnabled = False,
     extraChipValue = 20, extraChipAmount = 2000\<rparr>"

definition createTournament :: "store \<Rightarrow> string \<Rightarrow> string \<Rightarrow> store" where
  "createTournament s nm u =
    s\<lparr>tournaments := newTournament nm u # tournaments s, activeTournamentId := Some u\<rparr>"

text \<open>
  \<^verbatim>\<open>removeTournament\<close>: the list is filtered, and the selection is recomputed from
  \<^verbatim>\<open>tournaments[0]?.id ?? null\<close>, where \<^verbatim>\<open>tournaments\<close> is the list of the render in which
  the handler was created, that is the list before the removal.
\<close>

definition removeTournament :: "store \<Rightarrow> string \<Rightarrow> store" where
  "removeTournament s i =
    \<lparr>tournaments = filter (\<lambda>t. tid t \<noteq> i) (tournaments s),
     activeTournamentId =
       (if activeTournamentId s = Some i
        then (case tournaments s of [] \<Rightarrow> None | t # _ \<Rightarrow> Some (tid t))
        else activeTournamentId s)\<rparr>"

section \<open>Clock\<close>

text \<open>
  The timer effect of \<^verbatim>\<open>TVScreen\<close>. While the clock runs with time left, the interval
  callback stores \<open>timeLeft - 1\<close> one second later; when the clock runs with no time left,
  the effect itself stores the next level. \<open>tick\<close> is the update that one run of the
  effect produces; in every other state the effect stores nothing.
\<close>

definition advance :: "tournament \<Rightarrow> tournament" where
  "advance t =
    (let next = clamp (currentLevelIndex t + 1) 0 (int (length (blinds t)) - 1)
     in t\<lparr>currentLevelIndex := next,
          timeLeft := levelDuration t * 60,
          isRunning := (if next = int (length (blinds t)) - 1 then False else isRunning t)\<rparr>)"

definition tick :: "tournament \<Rightarrow> tournament" where
  "tick t =
    (if isRunning t \<and> timeLeft t > 0 then t\<lparr>timeLeft := timeLeft t - 1\<rparr>
     else if isRunning t \<and> timeLeft t = 0 then advance t
     else t)"

text \<open>The control buttons of \<^verbatim>\<open>TVScreen\<close>.\<close>

definition startPause :: "tournament \<Rightarrow> tournament" where
  "startPause t = t\<lparr>isRunning := \<not> isRunning t\<rparr>"

definition reset :: "tournament \<Rightarrow> tournament" where
  "reset t = t\<lparr>isRunning := False, currentLevelIndex := 0, timeLeft := levelDuration t * 60\<rparr>"

definition jumpLevel :: "int \<Rightarrow> tournament \<Rightarrow> tournament" where
  "jumpLevel delta t =
    t\<lparr>currentLevelIndex := clamp (currentLevelIndex t + delta) 0 (int (length (blinds t)) - 1),
      timeLeft := levelDuration t * 60\<rparr>"

definition prevLevel :: "tournament \<Rightarrow> tournament" where
  "prevLevel = jumpLevel (- 1)"

definition nextLevel :: "tournament \<Rightarrow> tournament" where
  "nextLevel = jumpLevel 1"

text \<open>
  The two numeric inputs of the admin panel that write clock fields. \<^verbatim>\<open>Number(v) || d\<close>
  replaces 0 (and an unparsable text) by the default \<open>d\<close>.
\<close>

definition setLevelDuration :: "int \<Rightarrow> tournament \<Rightarrow> tournament" where
  "setLevelDuration v t =
    t\<lparr>levelDuration := clamp (if v = 0 then 1 else v) 1 180,
      timeLeft := clamp (if v = 0 then 1 else v) 1 180 * 60\<rparr>"

definition setCurrentLevel :: "int \<Rightarrow> tournament \<Rightarrow> tournament" where
  "setCurrentLevel v t =
    t\<lparr>currentLevelIndex := clamp v 0 (int (length (blinds t)) - 1),
      timeLeft := levelDuration t * 60\<rparr>"

text \<open>The schedule and the starting state of the two-level scenario.\<close>

definition twoLevels :: "blind list" where
  "twoLevels =
    [\<lparr>level = 1, smallBlind = 25, bigBlind = 50, ante = 0, isBreak = None, breakDuration = None\<rparr>,
     \<lparr>level = 2, smallBlind = 50, bigBlind = 100, ante = 0, isBreak = Some False,
      breakDuration = None\<rparr>]"

definition scenarioStart :: tournament where
  "scenarioStart = (newTournament ''T'' ''tr_1'')\<lparr>blinds := twoLevels, isRunning := True\<rparr>"

section \<open>Player ledger\<close>

text \<open>
  \<^verbatim>\<open>String.prototype.trim\<close> removes white space at both ends. Strings are byte strings
  here, so the white space characters are the ASCII ones: tab, line feed, vertical tab,
  form feed, carriage return and space.
\<close>

definition isWhitespace :: "char \<Rightarrow> bool" where
  "isWhitespace c = (c \<in> set [CHR 0x09, CHR 0x0A, CHR 0x0B, CHR 0x0C, CHR 0x0D, CHR '' ''])"

definition trim :: "string \<Rightarrow> string" where
  "trim s = rev (dropWhile isWhitespace (rev (dropWhile isWhitespace s)))"

text \<open>
  \<^verbatim>\<open>addPlayer\<close>: the typed name is \<open>newPlayerName\<close>, and \<open>now\<close> is the value of
  \<^verbatim>\<open>Date.now()\<close> that becomes the player's id. With an empty trimmed name the handler
  returns before it stores anything.
\<close>

definition addPlayer :: "string \<Rightarrow> int \<Rightarrow> tournament \<Rightarrow> tournament" where
  "addPlayer newPlayerName now t =
    (if trim newPlayerName = [] then t
     else
       let isTimeChipEligible = (timeChipEnabled t \<and> currentLevelIndex t < 2);
           timeChipBonus = (if isTimeChipEligible then timeChipValue t else 0);
           p = \<lparr>pid = now, pname = trim newPlayerName, actions = 1, rebuys = 0, addons = 0,
                chips = buyInChips t + timeChipBonus, position = None, prize = 0,
                active = True, hasTimeChip = isTimeChipEligible, hasExtraChip = False\<rparr>
       in t\<lparr>players := players t @ [p]\<rparr>)"

text \<open>
  \<^verbatim>\<open>updatePlayer(id, patch)\<close> merges the patch into every player that carries the id.
  A patch is a function that overwrites the patched fields with fixed values.
\<close>

definition updatePlayer :: "int \<Rightarrow> (player \<Rightarrow> player) \<Rightarrow> tournament \<Rightarrow> tournament" where
  "updatePlayer i patch t =
    t\<lparr>players := map (\<lambda>p. if pid p = i then patch p else p) (players t)\<rparr>"

definition removePlayer :: "int \<Rightarrow> tournament \<Rightarrow> tournament" where
  "removePlayer i t = t\<lparr>players := filter (\<lambda>p. pid p \<noteq> i) (players t)\<rparr>"

text \<open>
  The buttons of a player's row. \<open>p\<close> is the player of the row, as the render that made
  the handler saw it: the patch is computed from \<open>p\<close> and from the tournament.
\<close>

definition setChips :: "player \<Rightarrow> real \<Rightarrow> tournament \<Rightarrow> tournament" where
  "setChips p v t = updatePlayer (pid p) (\<lambda>q. q\<lparr>chips := v\<rparr>) t"

definition buyExtraChip :: "player \<Rightarrow> tournament \<Rightarrow> tournament" where
  "buyExtraChip p t =
    updatePlayer (pid p) (\<lambda>q. q\<lparr>hasExtraChip := True, chips := chips p + extraChipAmount t\<rparr>) t"

definition rebuy :: "player \<Rightarrow> tournament \<Rightarrow> tournament" where
  "rebuy p t =
    updatePlayer (pid p)
      (\<lambda>q. q\<lparr>rebuys := rebuys p + 1, actions := actions p + 1, chips := chips p + rebuyChips t\<rparr>) t"

definition addon :: "player \<Rightarrow> tournament \<Rightarrow> tournament" where
  "addon p t =
    updatePlayer (pid p) (\<lambda>q. q\<lparr>addons := addons p + 1, chips := chips p + addonChips t\<rparr>) t"

definition eliminate :: "player \<Rightarrow> tournament \<Rightarrow> tournament" where
  "eliminate p t =
    updatePlayer (pid p)
      (\<lambda>q. q\<lparr>active := False, position := Some (int (length (filter active (players t))))\<rparr>) t"

text \<open>Eliminating the players of the rows \<open>is\<close>, one after the other.\<close>

fun eliminateRows :: "nat list \<Rightarrow> tournament \<Rightarrow> tournament" where
  "eliminateRows [] t = t"
| "eliminateRows (i # is) t = eliminateRows is (eliminate (players t ! i) t)"

section \<open>Blind schedule\<close>

text \<open>
  \<^verbatim>\<open>lastLevel?.f || d\<close> is \<open>d\<close> when the schedule is empty and when the field is 0.
\<close>

definition orDefault :: "int \<Rightarrow> int \<Rightarrow> int" where
  "orDefault v d = (if v = 0 then d else v)"

definition addBlindLevel :: "tournament \<Rightarrow> tournament" where
  "addBlindLevel t =
    (let newLevel =
       (case rev (blinds t) of
          [] \<Rightarrow> \<lparr>level = 0 + 1, smallBlind = 25 * 2, bigBlind = 50 * 2, ante = 0,
                 isBreak = Some False, breakDuration = None\<rparr>
        | lastLevel # _ \<Rightarrow>
            \<lparr>level = orDefault (level lastLevel) 0 + 1,
             smallBlind = orDefault (smallBlind lastLevel) 25 * 2,
             bigBlind = orDefault (bigBlind lastLevel) 50 * 2,
             ante = orDefault (ante lastLevel) 0,
             isBreak = Some False, breakDuration = None\<rparr>)
     in t\<lparr>blinds := blinds t @ [newLevel]\<rparr>)"

definition addBreak :: "tournament \<Rightarrow> tournament" where
  "addBreak t =
    (let newBreak =
       \<lparr>level = (case rev (blinds t) of [] \<Rightarrow> 0 | lastLevel # _ \<Rightarrow> orDefault (level lastLevel) 0) + 1,
        smallBlind = 0, bigBlind = 0, ante = 0, isBreak = Some True, breakDuration = Some 10\<rparr>
     in t\<lparr>blinds := blinds t @ [newBreak]\<rparr>)"

datatype blind_patch =
  SetLevel int | SetSmallBlind int | SetBigBlind int | SetAnte int | SetBreakDuration int

fun mergeBlind :: "blind_patch \<Rightarrow> blind \<Rightarrow> blind" where
  "mergeBlind (SetLevel v) b = b\<lparr>level := v\<rparr>"
| "mergeBlind (SetSmallBlind v) b = b\<lparr>smallBlind := v\<rparr>"
| "mergeBlind (SetBigBlind v) b = b\<lparr>bigBlind := v\<rparr>"
| "mergeBlind (SetAnte v) b = b\<lparr>ante := v\<rparr>"
| "mergeBlind (SetBreakDuration v) b = b\<lparr>breakDuration := Some v\<rparr>"

definition updateBlind :: "nat \<Rightarrow> blind_patch \<Rightarrow> tournament \<Rightarrow> tournament" where
  "updateBlind index patch t =
    t\<lparr>blinds := map (\<lambda>(i, b). if i = index then mergeBlind patch b else b)
                    (enumerate 0 (blinds t))\<rparr>"

text \<open>\<^verbatim>\<open>removeBlind\<close> filters the schedule by index and writes no other field.\<close>

definition removeBlind :: "nat \<Rightarrow> tournament \<Rightarrow> tournament" where
  "removeBlind index t =
    t\<lparr>blinds := map snd (filter (\<lambda>(i, b). i \<noteq> index) (enumerate 0 (blinds t)))\<rparr>"

section \<open>Prize pool\<close>

text \<open>
  \<^verbatim>\<open>totalPrizePool\<close>, the same \<^verbatim>\<open>reduce\<close> in \<^verbatim>\<open>TVScreen\<close> and in \<^verbatim>\<open>TVScreenPublic\<close>.
\<close>

definition totalPrizePool :: "tournament \<Rightarrow> real" where
  "totalPrizePool t =
    foldl (\<lambda>s p.
        let actionsTotal = real_of_int (actions p) * buyInValue t;
            addonsTotal = real_of_int (addons p) * addonValue t;
            extraChipTotal = (if hasExtraChip p then extraChipValue t else 0);
            total = actionsTotal + addonsTotal + extraChipTotal;
            afterFee = total * (1 - adminFeePercent t / 100)
        in s + afterFee)
      0 (players t)"

text \<open>The prize pool in the words of the specification, for comparison.\<close>

definition grossContribution :: "tournament \<Rightarrow> player \<Rightarrow> real" where
  "grossContribution t p =
    real_of_int (actions p) * buyInValue t + real_of_int (addons p) * addonValue t
      + (if hasExtraChip p then extraChipValue t else 0)"

definition netContribution :: "tournament \<Rightarrow> player \<Rightarrow> real" where
  "netContribution t p = grossContribution t p * (1 - adminFeePercent t / 100)"

section \<open>Ranking\<close>

text \<open>
  \<^verbatim>\<open>calculateRanking\<close>; \<^verbatim>\<open>Math.pow(x, 0.5)\<close> is the power \<open>x powr (1/2)\<close>.
\<close>

definition calculateRanking :: "int \<Rightarrow> int \<Rightarrow> real \<Rightarrow> real" where
  "calculateRanking acts pos weight =
    (if pos \<le> 0 \<or> acts \<le> 0 then 0
     else ((real_of_int acts / real_of_int pos) * 100) powr (1 / 2) * weight)"

record ranked =
  rplayer :: player
  score :: real
  finalPosition :: int

definition scoreRow :: "tournament \<Rightarrow> player \<Rightarrow> ranked" where
  "scoreRow t p =
    (let pos = (case position p of
                  Some n \<Rightarrow> n
                | None \<Rightarrow> (if active p then int (length (players t)) else int (length (players t))))
     in \<lparr>rplayer = p, score = calculateRanking (actions p) pos (stageWeight t),
         finalPosition = pos\<rparr>)"

text \<open>
  \<^verbatim>\<open>.sort((a,b) => b.score - a.score)\<close>: the stable sort of the rows by descending score,
  that is by ascending negated score.
\<close>

definition withScores :: "tournament \<Rightarrow> ranked list" where
  "withScores t = sort_key (\<lambda>r. - score r) (map (scoreRow t) (players t))"

text \<open>The score in the words of the specification, for comparison.\<close>

definition effectivePosition :: "tournament \<Rightarrow> player \<Rightarrow> int" where
  "effectivePosition t p = (case position p of Some n \<Rightarrow> n | None \<Rightarrow> int (length (players t)))"

definition specScore :: "tournament \<Rightarrow> player \<Rightarrow> real" where
  "specScore t p =
    (if actions p \<le> 0 \<or> effectivePosition t p \<le> 0 then 0
     else sqrt ((real_of_int (actions p) / real_of_int (effectivePosition t p)) * 100)
            * stageWeight t)"

section \<open>Operations on a tournament\<close>

text \<open>
  The operator's actions on the open tournament and the run of the timer effect. A
  button of a player's row exists for the rows of the list only, and the extra-chip button
  only while extra chips are enabled and the player has none.
\<close>

datatype op =
    Tick | StartPause | Reset | PrevLevel | NextLevel
  | SetLevelDuration int | SetCurrentLevel int
  | AddBlindLevel | AddBreak | UpdateBlind nat blind_patch | RemoveBlind nat
  | AddPlayer string int | SetChips nat real | BuyExtraChip nat
  | Rebuy nat | Addon nat | Eliminate nat | RemovePlayer nat

definition onRow :: "nat \<Rightarrow> (player \<Rightarrow> tournament \<Rightarrow> tournament) \<Rightarrow> tournament \<Rightarrow> tournament" where
  "onRow i f t = (if i < length (players t) then f (players t ! i) t else t)"

fun applyOp :: "tournament \<Rightarrow> op \<Rightarrow> tournament" where
  "applyOp t Tick = tick t"
| "applyOp t StartPause = startPause t"
| "applyOp t Reset = reset t"
| "applyOp t PrevLevel = prevLevel t"
| "applyOp t NextLevel = nextLevel t"
| "applyOp t (SetLevelDuration v) = setLevelDuration v t"
| "applyOp t (SetCurrentLevel v) = setCurrentLevel v t"
| "applyOp t AddBlindLevel = addBlindLevel t"
| "applyOp t AddBreak = addBreak t"
| "applyOp t (UpdateBlind i patch) = updateBlind i patch t"
| "applyOp t (RemoveBlind i) = removeBlind i t"
| "applyOp t (AddPlayer nm now) = addPlayer nm now t"
| "applyOp t (SetChips i v) = onRow i (\<lambda>p. setChips p v) t"
| "applyOp t (BuyExtraChip i) =
     onRow i (\<lambda>p u. if extraChipEnabled u \<and> \<not> hasExtraChip p then buyExtraChip p u else u) t"
| "applyOp t (Rebuy i) = onRow i rebuy t"
| "applyOp t (Addon i) = onRow i addon t"
| "applyOp t (Eliminate i) = onRow i eliminate t"
| "applyOp t (RemovePlayer i) = onRow i (\<lambda>p. removePlayer (pid p)) t"

definition run :: "op list \<Rightarrow> tournament \<Rightarrow> tournament" where
  "run ops t = foldl applyOp t ops"

fun isRemoveBlind :: "op \<Rightarrow> bool" where
  "isRemoveBlind (RemoveBlind i) = True"
| "isRemoveBlind _ = False"

section \<open>Concrete states used below\<close>

text \<open>
  A new tournament whose five default levels are removed one by one, started, and left
  running for the 600 seconds of its first level.
\<close>

definition emptiedExpired :: tournament where
  "emptiedExpired =
    run (replicate 5 (RemoveBlind 0) @ [StartPause] @ replicate 600 Tick)
      (newTournament ''T'' ''tr_1'')"

text \<open>A new tournament whose five default levels are removed one by one.\<close>

definition emptied :: tournament where
  "emptied = run (replicate 5 (RemoveBlind 0)) (newTournament ''T'' ''tr_1'')"

text \<open>Ann buys in, rebuys once and takes one add-on.\<close>

definition poolExample :: tournament where
  "poolExample = run [AddPlayer ''Ann'' 1, Rebuy 0, Addon 0] (newTournament ''T'' ''tr_1'')"


text \<open>Y and X join in this order; Y is eliminated first, X second.\<close>

definition rankExample :: tournament where
  "rankExample =
    run [AddPlayer ''Y'' 1, AddPlayer ''X'' 2, Eliminate 0, Eliminate 1]
      (newTournament ''T'' ''tr_1'')"

text \<open>A stored player whose counter of buy-ins is 0.\<close>

definition noEntries :: player where
  "noEntries =
    \<lparr>pid = 3, pname = ''Z'', actions = 0, rebuys = 0, addons = 0, chips = 0, position = Some 1,
     prize = 0, active = False, hasTimeChip = False, hasExtraChip = False\<rparr>"

text \<open>Four players, all active.\<close>

definition fourPlayers :: tournament where
  "fourPlayers =
    run [AddPlayer ''A'' 1, AddPlayer ''B'' 2, AddPlayer ''C'' 3, AddPlayer ''D'' 4]
      (newTournament ''T'' ''tr_1'')"

text \<open>Ann after her buy-in, and what happens to her next: two rebuys, an add-on, an elimination.\<close>

definition annAlone :: tournament where
  "annAlone = run [AddPlayer ''Ann'' 1] (newTournament ''T'' ''tr_1'')"

definition annOps :: "op list" where
  "annOps = [Rebuy 0, Addon 0, Eliminate 0, Rebuy 0]"

text \<open>A session that removes no blind level.\<close>

definition sampleOps :: "op list" where
  "sampleOps =
    [AddPlayer ''Ann'' 1, StartPause, Tick, NextLevel, NextLevel, NextLevel, NextLevel,
     NextLevel, AddBreak, Rebuy 0, Eliminate 0, SetCurrentLevel 9, PrevLevel]"

definition emptyStore :: store where
  "emptyStore = \<lparr>tournaments = [], activeTournamentId = None\<rparr>"

text \<open>Two tournaments; the second one created is first in the list and selected.\<close>

definition twoTournaments :: store where
  "twoTournaments = createTournament (createTournament emptyStore ''A'' ''tr_1'') ''B'' ''tr_2''"

section \<open>Invariants\<close>

definition clockInv :: "tournament \<Rightarrow> bool" where
  "clockInv t = (0 \<le> currentLevelIndex t \<and> 0 \<le> timeLeft t \<and> 0 \<le> levelDuration t)"

definition ledgerInv :: "tournament \<Rightarrow> bool" where
  "ledgerInv t = (\<forall>p\<in>set (players t). actions p = 1 + rebuys p)"

section \<open>The clock\<close>

lemma tick_running:
  "isRunning t \<Longrightarrow> 0 < timeLeft t \<Longrightarrow> tick t = t\<lparr>timeLeft := timeLeft t - 1\<rparr>"
  by (simp add: tick_def)

lemma tick_iterate:
  "isRunning t \<Longrightarrow> int n \<le> timeLeft t \<Longrightarrow> (tick ^^ n) t = t\<lparr>timeLeft := timeLeft t - int n\<rparr>"
proof (induction n)
  case 0
  then show ?case by simp
next
  case (Suc n)
  then have step: "(tick ^^ n) t = t\<lparr>timeLeft := timeLeft t - int n\<rparr>" by simp
  have "(tick ^^ Suc n) t = tick (t\<lparr>timeLeft := timeLeft t - int n\<rparr>)"
    by (simp add: step)
  also have "\<dots> = t\<lparr>timeLeft := timeLeft t - int (Suc n)\<rparr>"
    using Suc.prems by (subst tick_running) simp_all
  finally show ?case .
qed

lemma run_append: "run (xs @ ys) t = run ys (run xs t)"
  by (simp add: run_def)

lemma run_ticks: "run (replicate n Tick) t = (tick ^^ n) t"
  by (induction n arbitrary: t) (simp_all add: run_def funpow_swap1)

lemma run_remove_all:
  "run (replicate 5 (RemoveBlind 0)) (newTournament nm u) = (newTournament nm u)\<lparr>blinds := []\<rparr>"
  by (simp add: run_def numeral_eq_Suc removeBlind_def newTournament_def
      defaultBlindStructure_def enumerate_eq_zip)

lemma emptiedExpired_eq:
  "emptiedExpired = (newTournament ''T'' ''tr_1'')\<lparr>blinds := [], isRunning := True, timeLeft := 0\<rparr>"
proof -
  let ?s = "(newTournament ''T'' ''tr_1'')\<lparr>blinds := [], isRunning := True\<rparr>"
  have "emptiedExpired = (tick ^^ 600) ?s"
    unfolding emptiedExpired_def run_append run_remove_all run_ticks
    by (simp add: run_def startPause_def newTournament_def)
  also have "\<dots> = ?s\<lparr>timeLeft := timeLeft ?s - int 600\<rparr>"
    by (rule tick_iterate) (simp_all add: newTournament_def)
  finally show ?thesis by (simp add: newTournament_def)
qed



text \<open>
  Claim C1, as the code has it. In a running tournament with time left, a tick
  lowers \<open>timeLeft\<close> by exactly 1 and changes nothing else. In a running tournament with no
  time left, the tick stores the level index \<open>clamp (currentLevelIndex + 1) 0 (length - 1)\<close>,
  sets \<open>timeLeft\<close> to \<open>levelDuration * 60\<close>, stops the clock exactly when the new index is
  the last index of the schedule, and changes nothing else. The new index is
  \<open>min (currentLevelIndex + 1) (length - 1)\<close> whenever the schedule is not empty and the
  old index is at least \<open>-1\<close>; the lower bound 0 of the clamp decides otherwise.
\<close>

theorem C1_tick_transitions:
  "(isRunning t \<and> timeLeft t > 0 \<longrightarrow> tick t = t\<lparr>timeLeft := timeLeft t - 1\<rparr>) \<and>
   (isRunning t \<and> timeLeft t = 0 \<longrightarrow>
      tick t =
        t\<lparr>currentLevelIndex := clamp (currentLevelIndex t + 1) 0 (int (length (blinds t)) - 1),
          timeLeft := levelDuration t * 60,
          isRunning := (clamp (currentLevelIndex t + 1) 0 (int (length (blinds t)) - 1)
                          \<noteq> int (length (blinds t)) - 1)\<rparr> \<and>
      (isRunning (tick t) = False \<longleftrightarrow>
         currentLevelIndex (tick t) = int (length (blinds t)) - 1) \<and>
      (blinds t \<noteq> [] \<and> - 1 \<le> currentLevelIndex t \<longrightarrow>
         currentLevelIndex (tick t) =
           min (currentLevelIndex t + 1) (int (length (blinds t)) - 1)))"
  by (auto simp: tick_def advance_def Let_def clamp_def)

theorem C1_tick_transitions_witness:
  "isRunning scenarioStart \<and> timeLeft scenarioStart > 0 \<and>
   tick scenarioStart = scenarioStart\<lparr>timeLeft := 599\<rparr> \<and>
   isRunning (scenarioStart\<lparr>timeLeft := 0\<rparr>) \<and> timeLeft (scenarioStart\<lparr>timeLeft := 0\<rparr>) = 0 \<and>
   blinds (scenarioStart\<lparr>timeLeft := 0\<rparr>) \<noteq> [] \<and>
   - 1 \<le> currentLevelIndex (scenarioStart\<lparr>timeLeft := 0\<rparr>) \<and>
   currentLevelIndex (tick (scenarioStart\<lparr>timeLeft := 0\<rparr>)) = 1 \<and>
   timeLeft (tick (scenarioStart\<lparr>timeLeft := 0\<rparr>)) = 600 \<and>
   isRunning (tick (scenarioStart\<lparr>timeLeft := 0\<rparr>)) = False"
  using C1_tick_transitions [of scenarioStart]
    C1_tick_transitions [of "scenarioStart\<lparr>timeLeft := 0\<rparr>"]
  by (simp add: scenarioStart_def newTournament_def twoLevels_def clamp_def)

text \<open>
  The claim as it is written fails on an empty schedule: in the running tournament whose
  levels were all removed and whose time is up, the tick stores the index 0, and the
  minimum of the claim is \<open>-1\<close>.
\<close>

theorem C1_min_counterexample:
  "isRunning emptiedExpired \<and> timeLeft emptiedExpired = 0 \<and>
   currentLevelIndex (tick emptiedExpired) = 0 \<and>
   min (currentLevelIndex emptiedExpired + 1) (int (length (blinds emptiedExpired)) - 1) = - 1"
  unfolding emptiedExpired_eq
  by (simp add: tick_def advance_def clamp_def newTournament_def)



section \<open>Reachable states\<close>

lemmas op_defs =
  tick_def advance_def startPause_def reset_def jumpLevel_def prevLevel_def nextLevel_def
  setLevelDuration_def setCurrentLevel_def addBlindLevel_def addBreak_def updateBlind_def
  removeBlind_def addPlayer_def updatePlayer_def removePlayer_def setChips_def
  buyExtraChip_def rebuy_def addon_def eliminate_def onRow_def

lemma clockInv_new: "clockInv (newTournament nm u)"
  by (simp add: clockInv_def newTournament_def)

lemma clockInv_applyOp: "clockInv t \<Longrightarrow> clockInv (applyOp t x)"
  by (cases x) (auto simp: clockInv_def op_defs clamp_def Let_def)

lemma clockInv_run: "clockInv t \<Longrightarrow> clockInv (run ops t)"
  unfolding run_def by (induction ops arbitrary: t) (simp_all add: clockInv_applyOp)

lemma index_applyOp:
  "\<not> isRemoveBlind x \<Longrightarrow> 0 \<le> currentLevelIndex t \<Longrightarrow>
   currentLevelIndex t < int (length (blinds t)) \<Longrightarrow>
   currentLevelIndex (applyOp t x) < int (length (blinds (applyOp t x)))"
  by (cases x) (auto simp: op_defs clamp_def Let_def)

lemma index_run:
  "\<forall>x\<in>set ops. \<not> isRemoveBlind x \<Longrightarrow> clockInv t \<Longrightarrow>
   currentLevelIndex t < int (length (blinds t)) \<Longrightarrow>
   currentLevelIndex (run ops t) < int (length (blinds (run ops t)))"
proof (induction ops arbitrary: t)
  case Nil
  then show ?case by (simp add: run_def)
next
  case (Cons x ops)
  have "clockInv (applyOp t x)" using Cons.prems(2) by (rule clockInv_applyOp)
  moreover have "currentLevelIndex (applyOp t x) < int (length (blinds (applyOp t x)))"
    using Cons.prems by (intro index_applyOp) (simp_all add: clockInv_def)
  ultimately have "currentLevelIndex (run ops (applyOp t x))
      < int (length (blinds (run ops (applyOp t x))))"
    using Cons.prems(1) by (intro Cons.IH) simp_all
  then show ?case by (simp add: run_def)
qed

text \<open>
  Claim C2, as the code has it. In every state that a sequence of operations (ticks,
  start/pause, reset, previous/next level, the level and level-duration inputs, schedule
  edits, ledger operations) reaches from a new tournament, \<open>0 \<le> currentLevelIndex\<close> and
  \<open>0 \<le> timeLeft\<close> hold; \<open>currentLevelIndex < length blinds\<close> holds in every state reached
  without removing a blind level. Numeric inputs are whole numbers.
\<close>

theorem C2_reachable_invariant:
  "0 \<le> currentLevelIndex (run ops (newTournament nm u)) \<and>
   0 \<le> timeLeft (run ops (newTournament nm u)) \<and>
   ((\<forall>x\<in>set ops. \<not> isRemoveBlind x) \<longrightarrow>
      currentLevelIndex (run ops (newTournament nm u))
        < int (length (blinds (run ops (newTournament nm u)))))"
proof -
  have "clockInv (run ops (newTournament nm u))"
    using clockInv_new by (rule clockInv_run)
  moreover have "(\<forall>x\<in>set ops. \<not> isRemoveBlind x) \<longrightarrow>
      currentLevelIndex (run ops (newTournament nm u))
        < int (length (blinds (run ops (newTournament nm u))))"
    using index_run [OF _ clockInv_new, of ops nm u]
    by (simp add: newTournament_def defaultBlindStructure_def)
  ultimately show ?thesis by (simp add: clockInv_def)
qed

theorem C2_reachable_invariant_witness:
  "list_all (\<lambda>x. \<not> isRemoveBlind x) sampleOps \<and>
   0 \<le> currentLevelIndex (run sampleOps (newTournament ''T'' ''tr_1'')) \<and>
   0 \<le> timeLeft (run sampleOps (newTournament ''T'' ''tr_1'')) \<and>
   currentLevelIndex (run sampleOps (newTournament ''T'' ''tr_1''))
     < int (length (blinds (run sampleOps (newTournament ''T'' ''tr_1''))))"
  using C2_reachable_invariant [of sampleOps "''T''" "''tr_1''"]
  by (simp add: sampleOps_def list_all_iff)

text \<open>
  The claim as it is written fails: removing the five default levels of a new tournament
  leaves an empty schedule with the current level index 0, which is not below the length
  of the schedule.
\<close>

theorem C2_empty_schedule_counterexample:
  "blinds emptied = [] \<and> currentLevelIndex emptied = 0 \<and>
   \<not> (0 \<le> currentLevelIndex emptied \<and>
      currentLevelIndex emptied < int (length (blinds emptied)) \<and>
      0 \<le> timeLeft emptied)"
  unfolding emptied_def run_remove_all by (simp add: newTournament_def)

section \<open>The prize pool\<close>

lemma foldl_add: "foldl (\<lambda>s p. s + f p) a xs = a + (\<Sum>p\<leftarrow>xs. f p)" for a :: real
  by (induction xs arbitrary: a) simp_all

lemma totalPrizePool_sum:
  "totalPrizePool t =
    (\<Sum>p\<leftarrow>players t.
       (real_of_int (actions p) * buyInValue t + real_of_int (addons p) * addonValue t
          + (if hasExtraChip p then extraChipValue t else 0))
       * (1 - adminFeePercent t / 100))"
  unfolding totalPrizePool_def Let_def by (simp add: foldl_add)

lemma poolExample_eq:
  "poolExample = (newTournament ''T'' ''tr_1'')\<lparr>players :=
     [\<lparr>pid = 1, pname = ''Ann'', actions = 2, rebuys = 1, addons = 1, chips = 25000,
       position = None, prize = 0, active = True, hasTimeChip = False, hasExtraChip = False\<rparr>]\<rparr>"
  by (simp add: poolExample_def run_def op_defs trim_def isWhitespace_def newTournament_def)



text \<open>
  Claim C3. The prize pool that the \<^verbatim>\<open>reduce\<close> computes is the sum, over all players of
  the list, of the net contribution: the gross contribution
  \<open>actions * buyInValue + addons * addonValue + (extraChipValue if hasExtraChip else 0)\<close>
  times \<open>1 - adminFeePercent / 100\<close>. The \<open>active\<close> flags play no part: setting them in any
  way leaves the pool as it is. With a buy-in of 100, a fee of 10 percent, an add-on value
  of 50 and one player with two buy-ins, one add-on and no extra chip, the pool is 225.
\<close>

theorem C3_prize_pool:
  "totalPrizePool t = (\<Sum>p\<leftarrow>players t. netContribution t p) \<and>
   netContribution t p =
     (real_of_int (actions p) * buyInValue t + real_of_int (addons p) * addonValue t
        + (if hasExtraChip p then extraChipValue t else 0))
     * (1 - adminFeePercent t / 100) \<and>
   totalPrizePool (t\<lparr>players := map (\<lambda>q. q\<lparr>active := a q\<rparr>) (players t)\<rparr>) = totalPrizePool t \<and>
   buyInValue poolExample = 100 \<and> adminFeePercent poolExample = 10 \<and>
   addonValue poolExample = 50 \<and>
   map (\<lambda>q. (actions q, addons q, hasExtraChip q)) (players poolExample) = [(2, 1, False)] \<and>
   totalPrizePool poolExample = 225"
proof -
  have "totalPrizePool t = (\<Sum>p\<leftarrow>players t. netContribution t p)"
    by (simp add: totalPrizePool_sum netContribution_def grossContribution_def)
  moreover have "netContribution t p =
     (real_of_int (actions p) * buyInValue t + real_of_int (addons p) * addonValue t
        + (if hasExtraChip p then extraChipValue t else 0))
     * (1 - adminFeePercent t / 100)"
    by (simp add: netContribution_def grossContribution_def)
  moreover have "totalPrizePool (t\<lparr>players := map (\<lambda>q. q\<lparr>active := a q\<rparr>) (players t)\<rparr>)
      = totalPrizePool t"
    by (simp add: totalPrizePool_sum comp_def cong: if_cong)
  moreover have "totalPrizePool poolExample = 225"
    unfolding totalPrizePool_sum poolExample_eq by (simp add: newTournament_def)
  moreover have "buyInValue poolExample = 100 \<and> adminFeePercent poolExample = 10 \<and>
     addonValue poolExample = 50 \<and>
     map (\<lambda>q. (actions q, addons q, hasExtraChip q)) (players poolExample) = [(2, 1, False)]"
    unfolding poolExample_eq by (simp add: newTournament_def)
  ultimately show ?thesis by simp
qed



section \<open>The player ledger\<close>


lemma fourPlayers_eq:
  "fourPlayers = (newTournament ''T'' ''tr_1'')\<lparr>players :=
     [\<lparr>pid = 1, pname = ''A'', actions = 1, rebuys = 0, addons = 0, chips = 10000,
       position = None, prize = 0, active = True, hasTimeChip = False, hasExtraChip = False\<rparr>,
      \<lparr>pid = 2, pname = ''B'', actions = 1, rebuys = 0, addons = 0, chips = 10000,
       position = None, prize = 0, active = True, hasTimeChip = False, hasExtraChip = False\<rparr>,
      \<lparr>pid = 3, pname = ''C'', actions = 1, rebuys = 0, addons = 0, chips = 10000,
       position = None, prize = 0, active = True, hasTimeChip = False, hasExtraChip = False\<rparr>,
      \<lparr>pid = 4, pname = ''D'', actions = 1, rebuys = 0, addons = 0, chips = 10000,
       position = None, prize = 0, active = True, hasTimeChip = False, hasExtraChip = False\<rparr>]\<rparr>"
  by (simp add: fourPlayers_def run_def op_defs trim_def isWhitespace_def newTournament_def)

lemma annAlone_eq:
  "annAlone = (newTournament ''T'' ''tr_1'')\<lparr>players :=
     [\<lparr>pid = 1, pname = ''Ann'', actions = 1, rebuys = 0, addons = 0, chips = 10000,
       position = None, prize = 0, active = True, hasTimeChip = False, hasExtraChip = False\<rparr>]\<rparr>"
  by (simp add: annAlone_def run_def op_defs trim_def isWhitespace_def newTournament_def)



lemma ledgerInv_applyOp: "ledgerInv t \<Longrightarrow> ledgerInv (applyOp t x)"
  by (cases x) (auto simp: ledgerInv_def op_defs Let_def)

lemma ledgerInv_run: "ledgerInv t \<Longrightarrow> ledgerInv (run ops t)"
  unfolding run_def by (induction ops arbitrary: t) (simp_all add: ledgerInv_applyOp)

text \<open>
  Claim C7. \<open>actions = 1 + rebuys\<close> holds for every player of every state that a sequence
  of operations reaches from a new tournament, and any sequence of operations keeps it
  for all players once it holds for all players. \<^verbatim>\<open>addPlayer\<close> appends a player with one
  buy-in and no rebuy; the rebuy button of a row adds exactly 1 to both counters of the
  row's player and \<open>rebuyChips\<close> to the chips; add-on, extra chip and elimination leave
  both counters of every player as they are.
\<close>

theorem C7_entries_rebuys:
  "((\<forall>q\<in>set (players t). actions q = 1 + rebuys q) \<longrightarrow>
      (\<forall>q\<in>set (players (run ops t)). actions q = 1 + rebuys q)) \<and>
   (\<forall>q\<in>set (players (run ops (newTournament nm u))). actions q = 1 + rebuys q) \<and>
   (trim n \<noteq> [] \<longrightarrow>
      actions (last (players (addPlayer n now t))) = 1 \<and>
      rebuys (last (players (addPlayer n now t))) = 0) \<and>
   (i < length (players t) \<longrightarrow>
      actions (players (rebuy (players t ! i) t) ! i) = actions (players t ! i) + 1 \<and>
      rebuys (players (rebuy (players t ! i) t) ! i) = rebuys (players t ! i) + 1 \<and>
      chips (players (rebuy (players t ! i) t) ! i) = chips (players t ! i) + rebuyChips t) \<and>
   map (\<lambda>q. (actions q, rebuys q)) (players (addon p t))
     = map (\<lambda>q. (actions q, rebuys q)) (players t) \<and>
   map (\<lambda>q. (actions q, rebuys q)) (players (buyExtraChip p t))
     = map (\<lambda>q. (actions q, rebuys q)) (players t) \<and>
   map (\<lambda>q. (actions q, rebuys q)) (players (eliminate p t))
     = map (\<lambda>q. (actions q, rebuys q)) (players t)"
proof -
  have a: "(\<forall>q\<in>set (players t). actions q = 1 + rebuys q) \<longrightarrow>
      (\<forall>q\<in>set (players (run ops t)). actions q = 1 + rebuys q)"
    using ledgerInv_run [of t ops] by (simp add: ledgerInv_def)
  have "ledgerInv (newTournament nm u)" by (simp add: ledgerInv_def newTournament_def)
  then have "ledgerInv (run ops (newTournament nm u))" by (rule ledgerInv_run)
  then have b: "\<forall>q\<in>set (players (run ops (newTournament nm u))). actions q = 1 + rebuys q"
    by (simp add: ledgerInv_def)
  have c: "trim n \<noteq> [] \<longrightarrow>
      actions (last (players (addPlayer n now t))) = 1 \<and>
      rebuys (last (players (addPlayer n now t))) = 0"
    by (simp add: addPlayer_def Let_def)
  have d: "i < length (players t) \<longrightarrow>
      actions (players (rebuy (players t ! i) t) ! i) = actions (players t ! i) + 1 \<and>
      rebuys (players (rebuy (players t ! i) t) ! i) = rebuys (players t ! i) + 1 \<and>
      chips (players (rebuy (players t ! i) t) ! i) = chips (players t ! i) + rebuyChips t"
    by (simp add: rebuy_def updatePlayer_def)
  have e: "map (\<lambda>q. (actions q, rebuys q)) (players (addon p t))
      = map (\<lambda>q. (actions q, rebuys q)) (players t)"
    "map (\<lambda>q. (actions q, rebuys q)) (players (buyExtraChip p t))
      = map (\<lambda>q. (actions q, rebuys q)) (players t)"
    "map (\<lambda>q. (actions q, rebuys q)) (players (eliminate p t))
      = map (\<lambda>q. (actions q, rebuys q)) (players t)"
    by (simp_all add: addon_def buyExtraChip_def eliminate_def updatePlayer_def)
  from a b c d e show ?thesis by blast
qed

theorem C7_entries_rebuys_witness:
  "list_all (\<lambda>q. actions q = 1 + rebuys q) (players annAlone) \<and>
   list_all (\<lambda>q. actions q = 1 + rebuys q) (players (run annOps annAlone)) \<and>
   map (\<lambda>q. (actions q, rebuys q)) (players (run annOps annAlone)) = [(3, 2)] \<and>
   trim ''Ann'' \<noteq> [] \<and>
   actions (last (players (addPlayer ''Ann'' 1 annAlone))) = 1 \<and>
   rebuys (last (players (addPlayer ''Ann'' 1 annAlone))) = 0 \<and>
   0 < length (players annAlone) \<and>
   actions (players (rebuy (players annAlone ! 0) annAlone) ! 0) = 2 \<and>
   rebuys (players (rebuy (players annAlone ! 0) annAlone) ! 0) = 1 \<and>
   chips (players (rebuy (players annAlone ! 0) annAlone) ! 0) = 20000"
  using C7_entries_rebuys [where t = annAlone and ops = annOps and n = "''Ann''" and now = 1
      and i = 0]
  by (simp add: annAlone_eq annOps_def run_def op_defs trim_def isWhitespace_def
      newTournament_def)

lemma eliminate_row:
  assumes "distinct (map pid (players t))" and "i < length (players t)"
  shows "players (eliminate (players t ! i) t) =
    (players t)[i := (players t ! i)\<lparr>active := False,
        position := Some (int (length (filter active (players t))))\<rparr>]"
proof (rule nth_equalityI)
  show "length (players (eliminate (players t ! i) t)) =
      length ((players t)[i := (players t ! i)\<lparr>active := False,
        position := Some (int (length (filter active (players t))))\<rparr>])"
    by (simp add: eliminate_def updatePlayer_def)
next
  fix j
  assume "j < length (players (eliminate (players t ! i) t))"
  then have j: "j < length (players t)" by (simp add: eliminate_def updatePlayer_def)
  have "pid (players t ! j) = pid (players t ! i) \<longleftrightarrow> j = i"
    using assms j nth_eq_iff_index_eq [of "map pid (players t)" j i] by simp
  then show "players (eliminate (players t ! i) t) ! j =
      (players t)[i := (players t ! i)\<lparr>active := False,
        position := Some (int (length (filter active (players t))))\<rparr>] ! j"
    using j by (auto simp: eliminate_def updatePlayer_def nth_list_update)
qed

lemma active_count_update:
  assumes "i < length xs" and "active (xs ! i)"
  shows "Suc (length (filter active (xs[i := (xs ! i)\<lparr>active := False, position := v\<rparr>])))
    = length (filter active xs)"
proof -
  have "xs = take i xs @ xs ! i # drop (Suc i) xs"
    using assms(1) by (rule id_take_nth_drop)
  then have "length (filter active xs)
      = length (filter active (take i xs @ xs ! i # drop (Suc i) xs))" by simp
  moreover have "xs[i := (xs ! i)\<lparr>active := False, position := v\<rparr>]
      = take i xs @ (xs ! i)\<lparr>active := False, position := v\<rparr> # drop (Suc i) xs"
    using assms(1) by (rule upd_conv_take_nth_drop)
  ultimately show ?thesis using assms(2) by simp
qed

lemma eliminateRows_positions:
  assumes "distinct (map pid (players t))" and "distinct rows"
    and "\<forall>i\<in>set rows. i < length (players t) \<and> active (players t ! i)"
  shows "length (players (eliminateRows rows t)) = length (players t) \<and>
    (\<forall>k<length rows. players (eliminateRows rows t) ! (rows ! k) =
        (players t ! (rows ! k))\<lparr>active := False,
           position := Some (int (length (filter active (players t))) - int k)\<rparr>) \<and>
    (\<forall>j<length (players t). j \<notin> set rows \<longrightarrow>
        players (eliminateRows rows t) ! j = players t ! j)"
  using assms
proof (induction rows arbitrary: t)
  case Nil
  then show ?case by simp
next
  case (Cons i rows)
  let ?n = "length (filter active (players t))"
  let ?t = "eliminate (players t ! i) t"
  have i: "i < length (players t)" "active (players t ! i)" "i \<notin> set rows" "distinct rows"
    using Cons.prems by simp_all
  have step: "players ?t =
      (players t)[i := (players t ! i)\<lparr>active := False, position := Some (int ?n)\<rparr>]"
    using Cons.prems(1) i(1) by (rule eliminate_row)
  have len: "length (players ?t) = length (players t)" by (simp add: step)
  have ids: "distinct (map pid (players ?t))"
  proof -
    have "map pid (players ?t) = map pid (players t)"
      by (simp add: eliminate_def updatePlayer_def comp_def if_distrib [of pid])
    then show ?thesis using Cons.prems(1) by simp
  qed
  have count: "Suc (length (filter active (players ?t))) = ?n"
    unfolding step using i(1,2) by (rule active_count_update)
  have others: "\<forall>j\<in>set rows. j < length (players ?t) \<and> active (players ?t ! j)"
    using Cons.prems(3) i(3) by (auto simp: step nth_list_update)
  from Cons.IH [OF ids i(4) others]
  have IH: "length (players (eliminateRows rows ?t)) = length (players ?t)"
    "\<And>k. k < length rows \<Longrightarrow> players (eliminateRows rows ?t) ! (rows ! k) =
        (players ?t ! (rows ! k))\<lparr>active := False,
           position := Some (int (length (filter active (players ?t))) - int k)\<rparr>"
    "\<And>j. j < length (players ?t) \<Longrightarrow> j \<notin> set rows \<Longrightarrow>
        players (eliminateRows rows ?t) ! j = players ?t ! j"
    by simp_all
  have a: "length (players (eliminateRows (i # rows) t)) = length (players t)"
    using IH(1) len by simp
  have b: "players (eliminateRows (i # rows) t) ! ((i # rows) ! k) =
        (players t ! ((i # rows) ! k))\<lparr>active := False, position := Some (int ?n - int k)\<rparr>"
    if k: "k < length (i # rows)" for k
  proof (cases k)
    case 0
    have "players (eliminateRows rows ?t) ! i = players ?t ! i"
      using IH(3) [of i] i(1,3) len by simp
    then show ?thesis using 0 i(1) by (simp add: step)
  next
    case (Suc k')
    then have k': "k' < length rows" using k by simp
    then have "rows ! k' \<noteq> i" using i(3) by (metis nth_mem)
    moreover have "int (length (filter active (players ?t))) - int k' = int ?n - int k"
      using count Suc by linarith
    ultimately show ?thesis using IH(2) [OF k'] Suc by (simp add: step)
  qed
  have c: "players (eliminateRows (i # rows) t) ! j = players t ! j"
    if "j < length (players t)" "j \<notin> set (i # rows)" for j
    using that IH(3) [of j] len by (simp add: step)
  from a b c show ?case by blast
qed

text \<open>
  Claim C5. The Eliminar button of a row makes the row's player inactive and stores as
  position the number of players that were active in the list the handler saw, the
  player included when active. With distinct player ids, eliminating the active players
  of the distinct rows \<open>rows\<close> one after the other in a field of \<open>N\<close> active players gives
  the \<open>k\<close>-th of them (counting from 0) the position \<open>N - k\<close> and changes nothing else in
  their records; the players of all other rows are left exactly as they were, so a
  survivor gets no position; and while fewer than \<open>N\<close> players are eliminated, none of
  them gets position 1.
\<close>

theorem C5_eliminate_positions:
  "(i < length (players t) \<longrightarrow>
      active (players (eliminate (players t ! i) t) ! i) = False \<and>
      position (players (eliminate (players t ! i) t) ! i)
        = Some (int (length (filter active (players t))))) \<and>
   (distinct (map pid (players t)) \<and> distinct rows \<and>
    (\<forall>r\<in>set rows. r < length (players t) \<and> active (players t ! r)) \<longrightarrow>
      (\<forall>k<length rows. players (eliminateRows rows t) ! (rows ! k) =
          (players t ! (rows ! k))\<lparr>active := False,
             position := Some (int (length (filter active (players t))) - int k)\<rparr>) \<and>
      (\<forall>j<length (players t). j \<notin> set rows \<longrightarrow>
          players (eliminateRows rows t) ! j = players t ! j) \<and>
      (length rows < length (filter active (players t)) \<longrightarrow>
         (\<forall>k<length rows. position (players (eliminateRows rows t) ! (rows ! k)) \<noteq> Some 1)))"
proof -
  have single: "i < length (players t) \<longrightarrow>
      active (players (eliminate (players t ! i) t) ! i) = False \<and>
      position (players (eliminate (players t ! i) t) ! i)
        = Some (int (length (filter active (players t))))"
    by (simp add: eliminate_def updatePlayer_def)
  have seq: "(\<forall>k<length rows. players (eliminateRows rows t) ! (rows ! k) =
          (players t ! (rows ! k))\<lparr>active := False,
             position := Some (int (length (filter active (players t))) - int k)\<rparr>) \<and>
      (\<forall>j<length (players t). j \<notin> set rows \<longrightarrow>
          players (eliminateRows rows t) ! j = players t ! j) \<and>
      (length rows < length (filter active (players t)) \<longrightarrow>
         (\<forall>k<length rows. position (players (eliminateRows rows t) ! (rows ! k)) \<noteq> Some 1))"
    if h: "distinct (map pid (players t))" "distinct rows"
      "\<forall>r\<in>set rows. r < length (players t) \<and> active (players t ! r)"
  proof -
    note pos = eliminateRows_positions [OF h]
    have "position (players (eliminateRows rows t) ! (rows ! k)) \<noteq> Some 1"
      if "length rows < length (filter active (players t))" "k < length rows" for k
    proof -
      have "position (players (eliminateRows rows t) ! (rows ! k))
          = Some (int (length (filter active (players t))) - int k)"
        using pos that(2) by simp
      moreover have "int (length (filter active (players t))) - int k \<noteq> 1"
        using that by linarith
      ultimately show ?thesis by simp
    qed
    with pos show ?thesis by blast
  qed
  from single seq show ?thesis by blast
qed

theorem C5_eliminate_positions_witness:
  "distinct (map pid (players fourPlayers)) \<and> distinct [0, 1 :: nat] \<and>
   list_all (\<lambda>r. r < length (players fourPlayers) \<and> active (players fourPlayers ! r)) [0, 1] \<and>
   length (filter active (players fourPlayers)) = 4 \<and>
   position (players (eliminate (players fourPlayers ! 0) fourPlayers) ! 0) = Some 4 \<and>
   map (\<lambda>q. (pname q, active q, position q)) (players (eliminateRows [0, 1] fourPlayers))
     = [(''A'', False, Some 4), (''B'', False, Some 3), (''C'', True, None),
        (''D'', True, None)]"
  using C5_eliminate_positions [of 0 fourPlayers "[0, 1]"]
  by (simp add: fourPlayers_eq eliminate_def updatePlayer_def newTournament_def)

section \<open>The ranking\<close>

lemma rankExample_eq:
  "rankExample = (newTournament ''T'' ''tr_1'')\<lparr>players :=
     [\<lparr>pid = 1, pname = ''Y'', actions = 1, rebuys = 0, addons = 0, chips = 10000,
       position = Some 2, prize = 0, active = False, hasTimeChip = False, hasExtraChip = False\<rparr>,
      \<lparr>pid = 2, pname = ''X'', actions = 1, rebuys = 0, addons = 0, chips = 10000,
       position = Some 1, prize = 0, active = False, hasTimeChip = False, hasExtraChip = False\<rparr>]\<rparr>"
  by (simp add: rankExample_def run_def op_defs trim_def isWhitespace_def newTournament_def)

lemma scoreRow_spec: "score (scoreRow t p) = specScore t p"
proof -
  have pos: "(case position p of Some n \<Rightarrow> n
        | None \<Rightarrow> (if active p then int (length (players t)) else int (length (players t))))
      = effectivePosition t p"
    by (simp add: effectivePosition_def split: option.splits)
  show ?thesis
  proof (cases "actions p \<le> 0 \<or> effectivePosition t p \<le> 0")
    case True
    then show ?thesis
      unfolding scoreRow_def Let_def pos specScore_def calculateRanking_def by auto
  next
    case False
    then have "0 \<le> real_of_int (actions p) / real_of_int (effectivePosition t p) * 100"
      by simp
    then have "(real_of_int (actions p) / real_of_int (effectivePosition t p) * 100) powr (1 / 2)
        = sqrt (real_of_int (actions p) / real_of_int (effectivePosition t p) * 100)"
      by (rule powr_half_sqrt)
    with False show ?thesis
      unfolding scoreRow_def Let_def pos specScore_def calculateRanking_def by auto
  qed
qed

lemma rplayer_scoreRow: "rplayer (scoreRow t p) = p"
  by (simp add: scoreRow_def Let_def)

lemma withScores_sorted: "sorted_wrt (\<lambda>a b. score b \<le> score a) (withScores t)"
proof -
  have "sorted (map (\<lambda>r. - score r) (withScores t))"
    unfolding withScores_def by (rule sorted_sort_key)
  then show ?thesis by (simp add: sorted_map)
qed

lemma sqrt_100: "sqrt 100 = 10"
proof -
  have "sqrt (10 ^ 2) = 10" by (subst real_sqrt_abs) simp
  then show ?thesis by simp
qed

lemma sqrt_50_less_10: "sqrt 50 < 10"
proof -
  have "sqrt 50 < sqrt 100" by (subst real_sqrt_less_iff) simp
  then show ?thesis by (simp add: sqrt_100)
qed

lemma rankExample_ranking:
  "map (\<lambda>r. (pname (rplayer r), score r)) (withScores rankExample)
     = [(''X'', 10), (''Y'', sqrt 50)]"
  unfolding withScores_def rankExample_eq using sqrt_50_less_10
  by (simp add: scoreRow_def calculateRanking_def newTournament_def powr_half_sqrt sqrt_100)

text \<open>
  Claim C4. The score that the ranking view computes for a player is the score of the
  specification: 0 when \<open>actions \<le> 0\<close> or when the effective position is \<open>\<le> 0\<close>, and
  otherwise \<open>sqrt (actions / effectivePosition * 100) * stageWeight\<close>, where the effective
  position is the recorded position if there is one and the number of players otherwise.
  The ranking holds exactly the players of the list, each with this score, in descending
  order of score. Two players with one buy-in each and stage weight 1, Y at position 2
  and X at position 1, score \<open>sqrt 50\<close> and 10, and X comes first.
\<close>

theorem C4_ranking:
  "score (scoreRow t p) = specScore t p \<and>
   specScore t p =
     (if actions p \<le> 0 \<or> effectivePosition t p \<le> 0 then 0
      else sqrt (real_of_int (actions p) / real_of_int (effectivePosition t p) * 100)
             * stageWeight t) \<and>
   effectivePosition t p = (case position p of Some n \<Rightarrow> n | None \<Rightarrow> int (length (players t))) \<and>
   (actions p \<le> 0 \<or> effectivePosition t p \<le> 0 \<longrightarrow> score (scoreRow t p) = 0) \<and>
   (\<forall>r\<in>set (withScores t). rplayer r \<in> set (players t) \<and> score r = specScore t (rplayer r)) \<and>
   mset (map rplayer (withScores t)) = mset (players t) \<and>
   sorted_wrt (\<lambda>a b. score b \<le> score a) (withScores t) \<and>
   map (\<lambda>q. (pname q, actions q, position q)) (players rankExample)
     = [(''Y'', 1, Some 2), (''X'', 1, Some 1)] \<and>
   stageWeight rankExample = 1 \<and>
   map (\<lambda>r. (pname (rplayer r), score r)) (withScores rankExample)
     = [(''X'', 10), (''Y'', sqrt 50)]"
proof -
  have spec: "specScore t p =
     (if actions p \<le> 0 \<or> effectivePosition t p \<le> 0 then 0
      else sqrt (real_of_int (actions p) / real_of_int (effectivePosition t p) * 100)
             * stageWeight t)"
    by (simp add: specScore_def)
  have eff: "effectivePosition t p
      = (case position p of Some n \<Rightarrow> n | None \<Rightarrow> int (length (players t)))"
    by (simp add: effectivePosition_def)
  have zero: "actions p \<le> 0 \<or> effectivePosition t p \<le> 0 \<longrightarrow> score (scoreRow t p) = 0"
    by (simp add: scoreRow_spec specScore_def)
  have rows: "\<forall>r\<in>set (withScores t).
      rplayer r \<in> set (players t) \<and> score r = specScore t (rplayer r)"
    by (auto simp: withScores_def scoreRow_spec rplayer_scoreRow)
  have perm: "mset (map rplayer (withScores t)) = mset (players t)"
    by (simp add: withScores_def multiset.map_comp comp_def rplayer_scoreRow)
  have ex: "map (\<lambda>q. (pname q, actions q, position q)) (players rankExample)
     = [(''Y'', 1, Some 2), (''X'', 1, Some 1)] \<and> stageWeight rankExample = 1"
    by (simp add: rankExample_eq newTournament_def)
  from scoreRow_spec spec eff zero rows perm withScores_sorted ex rankExample_ranking
  show ?thesis by blast
qed

theorem C4_ranking_witness:
  "actions noEntries \<le> 0 \<and> position noEntries = Some 1 \<and>
   score (scoreRow rankExample noEntries) = 0 \<and>
   withScores rankExample \<noteq> [] \<and>
   list_all
     (\<lambda>r. rplayer r \<in> set (players rankExample) \<and> score r = specScore rankExample (rplayer r))
     (withScores rankExample)"
proof -
  have "withScores rankExample \<noteq> []"
    using rankExample_ranking by auto
  moreover have "actions noEntries \<le> 0 \<and> position noEntries = Some 1"
    by (simp add: noEntries_def)
  ultimately show ?thesis
    using C4_ranking [of rankExample noEntries] by (simp add: list_all_iff)
qed

section \<open>The store\<close>

text \<open>
  Claim C10. \<^verbatim>\<open>removeTournament\<close> keeps exactly the tournaments with another id, in
  their order. A selection of another tournament is kept; when the removed tournament was
  selected, the new selection is the id of the first tournament of the list before the
  removal (none for an empty list). So when the removed, selected tournament was the first
  of the list, the selection still is its id afterwards, and no tournament of the new
  list has this id.
\<close>

theorem C10_remove_tournament:
  "tournaments (removeTournament s i) = filter (\<lambda>t. tid t \<noteq> i) (tournaments s) \<and>
   (\<forall>t\<in>set (tournaments (removeTournament s i)). tid t \<noteq> i) \<and>
   (activeTournamentId s \<noteq> Some i \<longrightarrow>
      activeTournamentId (removeTournament s i) = activeTournamentId s) \<and>
   (activeTournamentId s = Some i \<longrightarrow>
      activeTournamentId (removeTournament s i) =
        (case tournaments s of [] \<Rightarrow> None | t # _ \<Rightarrow> Some (tid t))) \<and>
   (activeTournamentId s = Some i \<and> tournaments s = t0 # rest \<and> tid t0 = i \<longrightarrow>
      activeTournamentId (removeTournament s i) = Some i \<and>
      (\<forall>t\<in>set (tournaments (removeTournament s i)).
         Some (tid t) \<noteq> activeTournamentId (removeTournament s i)))"
  by (auto simp: removeTournament_def)

theorem C10_remove_tournament_witness:
  "activeTournamentId twoTournaments = Some ''tr_2'' \<and>
   tournaments twoTournaments = [newTournament ''B'' ''tr_2'', newTournament ''A'' ''tr_1''] \<and>
   tid (newTournament ''B'' ''tr_2'') = ''tr_2'' \<and>
   tournaments (removeTournament twoTournaments ''tr_2'') = [newTournament ''A'' ''tr_1''] \<and>
   activeTournamentId (removeTournament twoTournaments ''tr_2'') = Some ''tr_2'' \<and>
   list_all (\<lambda>t. Some (tid t) \<noteq> activeTournamentId (removeTournament twoTournaments ''tr_2''))
     (tournaments (removeTournament twoTournaments ''tr_2'')) \<and>
   activeTournamentId twoTournaments \<noteq> Some ''tr_1'' \<and>
   activeTournamentId (removeTournament twoTournaments ''tr_1'') = Some ''tr_2''"
  using C10_remove_tournament [of twoTournaments "''tr_2''" "newTournament ''B'' ''tr_2''"
      "[newTournament ''A'' ''tr_1'']"]
    C10_remove_tournament [of twoTournaments "''tr_1''"]
  by (simp add: twoTournaments_def createTournament_def emptyStore_def newTournament_def)

end
